theory Spec2Isabelle
  imports Complex_Main "HOL-Library.Word" "HOL-Library.Multiset"
begin

unbundle bit_operations_syntax

section \<open>Values of the Python program\<close>

text \<open>
  The program is \<^verbatim>\<open>funcs/BernGrid.py\<close>: one function, \<^verbatim>\<open>bern_grid\<close>, and a demo script
  at the top level of the module. The model follows the Python semantics of the
  statements as they are written.

  A \<^verbatim>\<open>float64\<close> is either a finite value or one of the IEEE specials. Finite values are
  idealised as real numbers: rounding, overflow to infinity, underflow and the sign of
  zero are not modelled. What is modelled is where \<^verbatim>\<open>nan\<close> and \<^verbatim>\<open>inf\<close> come from:
  numpy divides by zero without raising.
\<close>

datatype float64 = Fin real | PInf | NInf | NaN

text \<open>An \<^verbatim>\<open>int64\<close> is a 64-bit word read in two's complement; its arithmetic wraps.\<close>

type_synonym int64 = "64 word"

text \<open>
  A number in an argument list: a Python \<^verbatim>\<open>int\<close> (in the \<^verbatim>\<open>int64\<close> range, which is what
  \<^verbatim>\<open>np.array\<close> turns into an \<^verbatim>\<open>int64\<close> array) or a Python \<^verbatim>\<open>float\<close>.
\<close>

datatype pynum = PyInt int64 | PyFloat float64

text \<open>A one-dimensional numpy array, by dtype.\<close>

datatype ndarray = IntArr "int64 list" | FloatArr "float64 list"

text \<open>A numpy scalar, as \<^verbatim>\<open>np.sum\<close> returns it.\<close>

datatype npscalar = NpInt int64 | NpFloat float64

text \<open>What a global name of the module can be bound to.\<close>

datatype pyval =
    PyNum pynum
  | PyList "pynum list"
  | NdArray ndarray
  | PyStr string
  | PyModule string
  | PyFunction string

text \<open>The exceptions the interpreter and numpy raise on the modelled statements.\<close>

datatype py_error =
    NameError string
  | TypeError
  | ValueError
  | AttributeError
  | ZeroDivisionError
  | SyntaxError

type_synonym globals = "string \<rightharpoonup> pyval"

definition lookup :: "globals \<Rightarrow> string \<Rightarrow> py_error + pyval" where
  "lookup g x = (case g x of None \<Rightarrow> Inl (NameError x) | Some v \<Rightarrow> Inr v)"

definition bind_err :: "'e + 'a \<Rightarrow> ('a \<Rightarrow> 'e + 'b) \<Rightarrow> 'e + 'b" where
  "bind_err r f = (case r of Inl e \<Rightarrow> Inl e | Inr x \<Rightarrow> f x)"

section \<open>Arithmetic of \<^verbatim>\<open>float64\<close>\<close>

definition scale_inf :: "bool \<Rightarrow> real \<Rightarrow> float64" where
  "scale_inf pos a =
     (if a = 0 then NaN else if (0 < a) = pos then PInf else NInf)"

fun fneg :: "float64 \<Rightarrow> float64" where
  "fneg (Fin a) = Fin (- a)"
| "fneg PInf = NInf"
| "fneg NInf = PInf"
| "fneg NaN = NaN"

fun fadd :: "float64 \<Rightarrow> float64 \<Rightarrow> float64" where
  "fadd (Fin a) (Fin b) = Fin (a + b)"
| "fadd NaN _ = NaN"
| "fadd _ NaN = NaN"
| "fadd PInf NInf = NaN"
| "fadd NInf PInf = NaN"
| "fadd PInf _ = PInf"
| "fadd _ PInf = PInf"
| "fadd NInf _ = NInf"
| "fadd _ NInf = NInf"

definition fsub :: "float64 \<Rightarrow> float64 \<Rightarrow> float64" where
  "fsub x y = fadd x (fneg y)"

fun fmul :: "float64 \<Rightarrow> float64 \<Rightarrow> float64" where
  "fmul (Fin a) (Fin b) = Fin (a * b)"
| "fmul NaN _ = NaN"
| "fmul _ NaN = NaN"
| "fmul (Fin a) PInf = scale_inf True a"
| "fmul (Fin a) NInf = scale_inf False a"
| "fmul PInf (Fin b) = scale_inf True b"
| "fmul NInf (Fin b) = scale_inf False b"
| "fmul PInf PInf = PInf"
| "fmul NInf NInf = PInf"
| "fmul PInf NInf = NInf"
| "fmul NInf PInf = NInf"

text \<open>
  Division as numpy's \<^verbatim>\<open>true_divide\<close> does it: a zero divisor gives \<^verbatim>\<open>nan\<close> for a zero
  dividend and an infinity otherwise (with a warning, never an exception).
\<close>

fun fdiv :: "float64 \<Rightarrow> float64 \<Rightarrow> float64" where
  "fdiv (Fin a) (Fin b) = (if b = 0 then scale_inf True a else Fin (a / b))"
| "fdiv NaN _ = NaN"
| "fdiv _ NaN = NaN"
| "fdiv (Fin a) PInf = Fin 0"
| "fdiv (Fin a) NInf = Fin 0"
| "fdiv PInf (Fin b) = (if b < 0 then NInf else PInf)"
| "fdiv NInf (Fin b) = (if b < 0 then PInf else NInf)"
| "fdiv PInf PInf = NaN"
| "fdiv PInf NInf = NaN"
| "fdiv NInf PInf = NaN"
| "fdiv NInf NInf = NaN"

fun is_finite :: "float64 \<Rightarrow> bool" where
  "is_finite (Fin a) = True"
| "is_finite PInf = False"
| "is_finite NInf = False"
| "is_finite NaN = False"

definition float_of_int64 :: "int64 \<Rightarrow> float64" where
  "float_of_int64 w = Fin (real_of_int (sint w))"

section \<open>The numpy operations the function body uses\<close>

fun is_int :: "pynum \<Rightarrow> bool" where
  "is_int (PyInt w) = True"
| "is_int (PyFloat x) = False"

fun the_int :: "pynum \<Rightarrow> int64" where
  "the_int (PyInt w) = w"
| "the_int (PyFloat x) = 0"

fun to_float :: "pynum \<Rightarrow> float64" where
  "to_float (PyInt w) = float_of_int64 w"
| "to_float (PyFloat x) = x"

text \<open>
  \<^verbatim>\<open>np.array(xs)\<close> on a list of numbers: \<^verbatim>\<open>int64\<close> when every element is an \<^verbatim>\<open>int\<close>,
  \<^verbatim>\<open>float64\<close> when one is a \<^verbatim>\<open>float\<close> and for the empty list.
\<close>

definition np_array :: "pynum list \<Rightarrow> ndarray" where
  "np_array xs =
     (if xs \<noteq> [] \<and> list_all is_int xs then IntArr (map the_int xs)
      else FloatArr (map to_float xs))"

fun len :: "ndarray \<Rightarrow> nat" where
  "len (IntArr ws) = length ws"
| "len (FloatArr xs) = length xs"

text \<open>
  \<^verbatim>\<open>Data == 1\<close> followed by \<^verbatim>\<open>np.count_nonzero\<close>: an array is compared elementwise; a
  number gives one boolean; a list, a string, a module or a function is not equal
  to \<^verbatim>\<open>1\<close>.
\<close>

fun count_eq_1 :: "pyval \<Rightarrow> int" where
  "count_eq_1 (NdArray (IntArr ws)) = int (length (filter (\<lambda>w. w = 1) ws))"
| "count_eq_1 (NdArray (FloatArr xs)) = int (length (filter (\<lambda>x. x = Fin 1) xs))"
| "count_eq_1 (PyNum (PyInt w)) = (if w = 1 then 1 else 0)"
| "count_eq_1 (PyNum (PyFloat x)) = (if x = Fin 1 then 1 else 0)"
| "count_eq_1 (PyList xs) = 0"
| "count_eq_1 (PyStr s) = 0"
| "count_eq_1 (PyModule m) = 0"
| "count_eq_1 (PyFunction f) = 0"

text \<open>\<^verbatim>\<open>k - a\<close> and \<^verbatim>\<open>k * a\<close> for a Python \<^verbatim>\<open>int\<close> \<open>k\<close> and an array \<open>a\<close>: the dtype of \<open>a\<close> stays.\<close>

fun int_rsub :: "int \<Rightarrow> ndarray \<Rightarrow> ndarray" where
  "int_rsub k (IntArr ws) = IntArr (map (\<lambda>w. word_of_int k - w) ws)"
| "int_rsub k (FloatArr xs) = FloatArr (map (\<lambda>x. fsub (Fin (real_of_int k)) x) xs)"

fun int_mul :: "int \<Rightarrow> ndarray \<Rightarrow> ndarray" where
  "int_mul k (IntArr ws) = IntArr (map (\<lambda>w. word_of_int k * w) ws)"
| "int_mul k (FloatArr xs) = FloatArr (map (\<lambda>x. fmul (Fin (real_of_int k)) x) xs)"

text \<open>
  Broadcasting of two one-dimensional operands: equal lengths go elementwise, a length
  of one is stretched, anything else is numpy's \<^verbatim>\<open>ValueError\<close>
  (operands could not be broadcast together).
\<close>

definition broadcast :: "('a \<Rightarrow> 'b \<Rightarrow> 'c) \<Rightarrow> 'a list \<Rightarrow> 'b list \<Rightarrow> py_error + 'c list" where
  "broadcast f xs ys =
     (if length xs = length ys then Inr (map2 f xs ys)
      else if length xs = 1 then Inr (map (f (hd xs)) ys)
      else if length ys = 1 then Inr (map (\<lambda>x. f x (hd ys)) xs)
      else Inl ValueError)"

text \<open>
  \<^verbatim>\<open>a ^ b\<close> on arrays is \<^verbatim>\<open>bitwise_xor\<close>: defined on integer dtypes only; a \<^verbatim>\<open>float64\<close>
  operand has no matching loop and raises \<^verbatim>\<open>TypeError\<close>, whatever the length.
\<close>

fun np_xor :: "ndarray \<Rightarrow> ndarray \<Rightarrow> py_error + ndarray" where
  "np_xor (IntArr vs) (IntArr ws) =
     bind_err (broadcast (\<lambda>v w. v XOR w) vs ws) (\<lambda>r. Inr (IntArr r))"
| "np_xor (IntArr vs) (FloatArr ys) = Inl TypeError"
| "np_xor (FloatArr xs) b = Inl TypeError"

fun np_xor_int :: "ndarray \<Rightarrow> int \<Rightarrow> py_error + ndarray" where
  "np_xor_int (IntArr vs) k = Inr (IntArr (map (\<lambda>v. v XOR word_of_int k) vs))"
| "np_xor_int (FloatArr xs) k = Inl TypeError"

text \<open>\<^verbatim>\<open>a * b\<close> on arrays: \<^verbatim>\<open>int64\<close> only when both are, \<^verbatim>\<open>float64\<close> otherwise.\<close>

fun np_multiply :: "ndarray \<Rightarrow> ndarray \<Rightarrow> py_error + ndarray" where
  "np_multiply (IntArr vs) (IntArr ws) =
     bind_err (broadcast (\<lambda>v w. v * w) vs ws) (\<lambda>r. Inr (IntArr r))"
| "np_multiply (IntArr vs) (FloatArr ys) =
     bind_err (broadcast (\<lambda>v y. fmul (float_of_int64 v) y) vs ys) (\<lambda>r. Inr (FloatArr r))"
| "np_multiply (FloatArr xs) (IntArr ws) =
     bind_err (broadcast (\<lambda>x w. fmul x (float_of_int64 w)) xs ws) (\<lambda>r. Inr (FloatArr r))"
| "np_multiply (FloatArr xs) (FloatArr ys) =
     bind_err (broadcast fmul xs ys) (\<lambda>r. Inr (FloatArr r))"

fun np_sum :: "ndarray \<Rightarrow> npscalar" where
  "np_sum (IntArr ws) = NpInt (foldl (+) 0 ws)"
| "np_sum (FloatArr xs) = NpFloat (foldl fadd (Fin 0) xs)"

fun scalar_to_float :: "npscalar \<Rightarrow> float64" where
  "scalar_to_float (NpInt w) = float_of_int64 w"
| "scalar_to_float (NpFloat x) = x"

text \<open>\<^verbatim>\<open>a / s\<close> for an array and a numpy scalar: always a \<^verbatim>\<open>float64\<close> array, never an exception.\<close>

fun np_true_divide :: "ndarray \<Rightarrow> npscalar \<Rightarrow> float64 list" where
  "np_true_divide (IntArr ws) s = map (\<lambda>w. fdiv (float_of_int64 w) (scalar_to_float s)) ws"
| "np_true_divide (FloatArr xs) s = map (\<lambda>x. fdiv x (scalar_to_float s)) xs"

section \<open>\<^verbatim>\<open>bern_grid\<close>, lines 34 to 45\<close>

text \<open>
  The local variables after the posterior line (line 45). The rest of the body
  (lines 47 to 125) is the plotting section, which reads these values.
\<close>

record bern_locals =
  ones :: int
  N :: nat
  p_data_given_theta :: ndarray
  p_data :: npscalar
  p_theta_given_data :: "float64 list"

text \<open>
  Line 34 reads the global \<^verbatim>\<open>np\<close> (bound by the module's import) and converts the three
  sequences with \<^verbatim>\<open>np.array\<close>.
\<close>

definition numpy_module :: "globals \<Rightarrow> py_error + unit" where
  "numpy_module g =
     bind_err (lookup g ''np'')
       (\<lambda>m. if m = PyModule ''numpy'' then Inr () else Inl AttributeError)"

text \<open>
  Line 41, \<^verbatim>\<open>theta^ones * (1-theta)^(N-ones)\<close>. In Python \<^verbatim>\<open>^\<close> is bitwise xor and binds
  weaker than \<^verbatim>\<open>*\<close>, so the expression is
  \<^verbatim>\<open>(theta ^ (ones * (1 - theta))) ^ (N - ones)\<close>.
\<close>

definition likelihood_line :: "ndarray \<Rightarrow> int \<Rightarrow> nat \<Rightarrow> py_error + ndarray" where
  "likelihood_line theta ones' N' =
     bind_err (np_xor theta (int_mul ones' (int_rsub 1 theta)))
       (\<lambda>t. np_xor_int t (int N' - ones'))"

text \<open>
  The body up to line 45. Line 37 takes the count of ones from the global \<^verbatim>\<open>Data\<close>, not
  from the parameter \<^verbatim>\<open>real_data\<close>, of which only the length is used (line 38).
  \<^verbatim>\<open>credib\<close> and \<^verbatim>\<open>n_to_plot\<close> are parameters that lines 34 to 45 never read.
\<close>

definition bern_grid ::
  "globals \<Rightarrow> pynum list \<Rightarrow> pynum list \<Rightarrow> pynum list \<Rightarrow> float64 \<Rightarrow> nat option
     \<Rightarrow> py_error + bern_locals" where
  "bern_grid g theta0 p_theta0 real_data0 credib n_to_plot =
     bind_err (numpy_module g) (\<lambda>_.
       let theta = np_array theta0;
           p_theta = np_array p_theta0;
           real_data = np_array real_data0
       in
       bind_err (lookup g ''Data'') (\<lambda>Data.
         let ones' = count_eq_1 Data;
             N' = len real_data
         in
         bind_err (likelihood_line theta ones' N') (\<lambda>likelihood.
           bind_err (np_multiply likelihood p_theta) (\<lambda>weighted.
             let p_data' = np_sum weighted in
             bind_err (np_multiply likelihood p_theta) (\<lambda>weighted'.
               Inr \<lparr> ones = ones', N = N',
                     p_data_given_theta = likelihood,
                     p_data = p_data',
                     p_theta_given_data = np_true_divide weighted' p_data' \<rparr>)))))"

section \<open>The top level of the module\<close>

text \<open>
  Importing the module first compiles the whole file, the body of \<^verbatim>\<open>bern_grid\<close>
  included; a statement that Python's grammar does not accept makes the import raise
  \<^verbatim>\<open>SyntaxError\<close> before any statement runs, and then no name is bound. Only a file
  that compiles has its top-level statements run, in order, on the module's globals,
  which start without any of the module's names; a statement that raises ends the import.
  Built-in names (\<^verbatim>\<open>print\<close>, \<^verbatim>\<open>map\<close>, \<^verbatim>\<open>len\<close>) are always found.
\<close>

datatype verdict = Python | NotPython

text \<open>
  The statements of the file in order, each by the line on which it starts, with
  whether Python's grammar accepts it. Lines 1 to 62 are Python. The plotting section
  is R for the most part: keyword arguments with dotted names (\<^verbatim>\<open>cex.axis=1.2\<close>, from the
  call that starts on line 64), blocks in braces (\<^verbatim>\<open>if ( meanTheta > .5 ) {\<close>, \<^verbatim>\<open>for ( idx in \<dots> ) {\<close>),
  \<^verbatim>\<open>bquote\<close>'s \<^verbatim>\<open>.(\<dots>)\<close> and the \<^verbatim>\<open>$\<close> of \<^verbatim>\<open>HDIinfo$indices\<close>. The demo script at the
  top level (lines 127 to 135) is a sequence of assignments and calls that Python
  parses.
\<close>

definition module_source :: "(nat \<times> verdict) list" where
  "module_source =
     [(1, Python), (3, Python), (4, Python),
      (34, Python), (37, Python), (38, Python), (41, Python), (44, Python), (45, Python),
      (49, Python), (52, Python), (53, Python), (62, Python),
      (64, NotPython), (68, NotPython), (73, NotPython),
      (77, NotPython), (82, NotPython), (84, NotPython),
      (87, Python), (88, NotPython), (92, NotPython), (94, NotPython), (97, NotPython),
      (100, Python), (101, Python), (102, NotPython), (104, NotPython),
      (109, NotPython), (110, NotPython), (116, NotPython), (118, NotPython),
      (125, Python),
      (127, Python), (128, Python), (129, Python), (130, Python), (131, Python),
      (132, Python), (133, Python), (134, Python), (135, Python)]"

definition compile_module :: "(nat \<times> verdict) list \<Rightarrow> py_error + unit" where
  "compile_module src =
     (if list_all (\<lambda>ls. snd ls = Python) src then Inr () else Inl SyntaxError)"

fun exec :: "(globals \<Rightarrow> py_error + globals) list \<Rightarrow> globals \<Rightarrow> py_error option \<times> globals" where
  "exec [] g = (None, g)"
| "exec (s # ss) g = (case s g of Inl e \<Rightarrow> (Some e, g) | Inr g' \<Rightarrow> exec ss g')"

text \<open>
  \<^verbatim>\<open>np.arange(start, stop, step)\<close> on Python \<^verbatim>\<open>int\<close>s: an \<^verbatim>\<open>int64\<close> array of
  \<open>\<lceil>(stop - start) / step\<rceil>\<close> values \<open>start + i * step\<close>.
\<close>

definition np_arange :: "int \<Rightarrow> int \<Rightarrow> int \<Rightarrow> py_error + ndarray" where
  "np_arange start stop step =
     (if step = 0 then Inl ZeroDivisionError
      else Inr (IntArr (map (\<lambda>i. word_of_int (start + int i * step))
                          [0 ..< nat (- ((start - stop) div step))])))"

text \<open>
  What the interpreter and numpy do where the module leaves it open to the model:
  the value of \<^verbatim>\<open>np.min(theta, 1-theta)\<close> (line 129: the second positional argument of
  \<^verbatim>\<open>np.min\<close> is the axis, and the exception numpy raises for an array there depends on
  its release), the value of \<^verbatim>\<open>p_theta/np.sum(p_theta)\<close> (line 130), and the call of
  an object that is none of the module's own.
\<close>

record runtime =
  min_expr :: "pyval \<Rightarrow> py_error + pyval"
  normalise_expr :: "pyval \<Rightarrow> py_error + pyval"
  call :: "pyval \<Rightarrow> pyval list \<Rightarrow> py_error + pyval"

text \<open>Line 1, \<^verbatim>\<open>import numpy as np\<close>, and line 3, \<^verbatim>\<open>def bern_grid\<close>.\<close>

definition stmt_1 :: "globals \<Rightarrow> py_error + globals" where
  "stmt_1 g = Inr (g(''np'' \<mapsto> PyModule ''numpy''))"

definition stmt_3 :: "globals \<Rightarrow> py_error + globals" where
  "stmt_3 g = Inr (g(''bern_grid'' \<mapsto> PyFunction ''bern_grid''))"

text \<open>Line 127, \<^verbatim>\<open>theta = np.arange(0, 1, 11)\<close>.\<close>

definition stmt_127 :: "globals \<Rightarrow> py_error + globals" where
  "stmt_127 g =
     bind_err (numpy_module g) (\<lambda>_.
       bind_err (np_arange 0 1 11) (\<lambda>a. Inr (g(''theta'' \<mapsto> NdArray a))))"

text \<open>Lines 128, 131 and 132: \<^verbatim>\<open>print(x)\<close> reads the name and changes nothing.\<close>

definition stmt_print :: "string \<Rightarrow> globals \<Rightarrow> py_error + globals" where
  "stmt_print x g = bind_err (lookup g x) (\<lambda>_. Inr g)"

text \<open>Line 129, \<^verbatim>\<open>p_theta = np.min(theta, 1-theta)\<close>.\<close>

definition stmt_129 :: "runtime \<Rightarrow> globals \<Rightarrow> py_error + globals" where
  "stmt_129 rt g =
     bind_err (numpy_module g) (\<lambda>_.
       bind_err (lookup g ''theta'') (\<lambda>t.
         bind_err (min_expr rt t) (\<lambda>m. Inr (g(''p_theta'' \<mapsto> m)))))"

text \<open>Line 130, \<^verbatim>\<open>p_theta = p_theta/np.sum(p_theta)\<close>.\<close>

definition stmt_130 :: "runtime \<Rightarrow> globals \<Rightarrow> py_error + globals" where
  "stmt_130 rt g =
     bind_err (lookup g ''p_theta'') (\<lambda>p.
       bind_err (numpy_module g) (\<lambda>_.
         bind_err (normalise_expr rt p) (\<lambda>q. Inr (g(''p_theta'' \<mapsto> q)))))"

text \<open>
  Line 133, \<^verbatim>\<open>Data = c(rep(0,0),rep(1,1))\<close>: the callee \<^verbatim>\<open>c\<close> is looked up first, then
  the arguments are evaluated from left to right.
\<close>

definition stmt_133 :: "runtime \<Rightarrow> globals \<Rightarrow> py_error + globals" where
  "stmt_133 rt g =
     bind_err (lookup g ''c'') (\<lambda>c.
       bind_err (lookup g ''rep'') (\<lambda>rep.
         bind_err (call rt rep [PyNum (PyInt 0), PyNum (PyInt 0)]) (\<lambda>a.
           bind_err (lookup g ''rep'') (\<lambda>rep'.
             bind_err (call rt rep' [PyNum (PyInt 1), PyNum (PyInt 1)]) (\<lambda>b.
               bind_err (call rt c [a, b]) (\<lambda>d. Inr (g(''Data'' \<mapsto> d))))))))"

text \<open>Line 134, \<^verbatim>\<open>openGraph(width=5,height=7)\<close>.\<close>

definition stmt_134 :: "runtime \<Rightarrow> globals \<Rightarrow> py_error + globals" where
  "stmt_134 rt g =
     bind_err (lookup g ''openGraph'') (\<lambda>f.
       bind_err (call rt f [PyNum (PyInt 5), PyNum (PyInt 7)]) (\<lambda>_. Inr g))"

text \<open>
  Lines 135 and 136,
  \<^verbatim>\<open>posterior = BernGrid( Theta, pTheta , Data , plotType="Bars" , showCentTend="None" , showHDI=FALSE , showpD=FALSE )\<close>.
\<close>

definition stmt_135 :: "runtime \<Rightarrow> globals \<Rightarrow> py_error + globals" where
  "stmt_135 rt g =
     bind_err (lookup g ''BernGrid'') (\<lambda>f.
       bind_err (lookup g ''Theta'') (\<lambda>a1.
         bind_err (lookup g ''pTheta'') (\<lambda>a2.
           bind_err (lookup g ''Data'') (\<lambda>a3.
             bind_err (lookup g ''FALSE'') (\<lambda>a6.
               bind_err (lookup g ''FALSE'') (\<lambda>a7.
                 bind_err (call rt f [a1, a2, a3, PyStr ''Bars'', PyStr ''None'', a6, a7])
                   (\<lambda>r. Inr (g(''posterior'' \<mapsto> r)))))))))"

definition module_statements :: "runtime \<Rightarrow> (globals \<Rightarrow> py_error + globals) list" where
  "module_statements rt =
     [stmt_1, stmt_3,
      stmt_127, stmt_print ''theta'', stmt_129 rt, stmt_130 rt,
      stmt_print ''theta'', stmt_print ''p_theta'',
      stmt_133 rt, stmt_134 rt, stmt_135 rt]"

text \<open>
  Running the top-level statements, as the import would after a successful compilation:
  the exception that ended the run, if any, and the globals bound by then.
\<close>

definition run_top_level :: "runtime \<Rightarrow> py_error option \<times> globals" where
  "run_top_level rt = exec (module_statements rt) Map.empty"

text \<open>The import: the exception that ended it, if any, and the globals bound by then.\<close>

definition import_module :: "runtime \<Rightarrow> py_error option \<times> globals" where
  "import_module rt =
     (case compile_module module_source of
        Inl e \<Rightarrow> (Some e, Map.empty)
      | Inr _ \<Rightarrow> run_top_level rt)"

section \<open>The computation the specification describes\<close>

text \<open>
  The binomial kernel of the specification, \<open>L(\<theta>) = \<theta>^ones * (1-\<theta>)^(M-ones)\<close>, with
  \<open>0^0 = 1\<close>, the evidence \<open>\<Sum> L(\<theta>\<^sub>i) * prior\<^sub>i\<close> and the posterior
  \<open>L(\<theta>\<^sub>i) * prior\<^sub>i / Evidence\<close>, over the reals. These follow the specification's
  words; they are what the results of the code are compared with.
\<close>

definition likelihood_spec :: "real \<Rightarrow> nat \<Rightarrow> nat \<Rightarrow> real" where
  "likelihood_spec \<theta> k M = \<theta> ^ k * (1 - \<theta>) ^ (M - k)"

definition evidence_spec :: "real list \<Rightarrow> real list \<Rightarrow> nat \<Rightarrow> nat \<Rightarrow> real" where
  "evidence_spec grid prior k M =
     sum_list (map2 (\<lambda>\<theta> p. likelihood_spec \<theta> k M * p) grid prior)"

definition posterior_spec :: "real list \<Rightarrow> real list \<Rightarrow> nat \<Rightarrow> nat \<Rightarrow> real list" where
  "posterior_spec grid prior k M =
     map2 (\<lambda>\<theta> p. likelihood_spec \<theta> k M * p / evidence_spec grid prior k M) grid prior"

section \<open>The highest density interval\<close>

text \<open>
  Modelled from the spec: \<^verbatim>\<open>HDIofGrid\<close>, which line 100 loads from \<^verbatim>\<open>HDIofGrid.R\<close> and
  line 101 calls on the posterior with \<^verbatim>\<open>credMass=credib\<close>; the file is not among the
  sources. The specification (4.1, step 4): sort the grid indices by descending
  posterior mass, ties in original order; accumulate indices until the cumulative mass
  reaches the credible mass; the height is the minimum posterior mass among the included
  indices; the result exposes the included indices (in grid order), the achieved
  cumulative mass and the height. The masses are reals here.
\<close>

record hdi_info =
  indices :: "nat list"
  mass :: real
  height :: real

definition by_descending_mass :: "real list \<Rightarrow> nat list" where
  "by_descending_mass ps = sort_key (\<lambda>i. - (ps ! i)) [0 ..< length ps]"

fun accumulate :: "real list \<Rightarrow> real \<Rightarrow> nat list \<Rightarrow> nat list \<Rightarrow> real \<Rightarrow> nat list \<times> real" where
  "accumulate ps cred [] inc m = (inc, m)"
| "accumulate ps cred (i # rest) inc m =
     (if cred \<le> m then (inc, m) else accumulate ps cred rest (inc @ [i]) (m + ps ! i))"

text \<open>No index is included only when the credible mass is not positive or the grid is empty.\<close>

definition HDIofGrid :: "real list \<Rightarrow> real \<Rightarrow> hdi_info option" where
  "HDIofGrid ps cred =
     (case accumulate ps cred (by_descending_mass ps) [] 0 of
        ([], m) \<Rightarrow> None
      | (i # inc, m) \<Rightarrow>
          Some \<lparr> indices = sort (i # inc), mass = m,
                 height = fold (\<lambda>j h. min (ps ! j) h) inc (ps ! i) \<rparr>)"

section \<open>Running the model\<close>

text \<open>The definitions a call unfolds to on a concrete input.\<close>

lemmas run_defs = bern_grid_def numpy_module_def lookup_def bind_err_def np_array_def
  likelihood_line_def broadcast_def float_of_int64_def scale_inf_def

lemma np_arange_demo: "np_arange 0 1 11 = Inr (IntArr [0])"
  by (simp add: np_arange_def)

lemmas stmt_defs = stmt_1_def stmt_3_def stmt_127_def stmt_print_def stmt_129_def stmt_130_def
  stmt_133_def stmt_134_def stmt_135_def numpy_module_def lookup_def bind_err_def

lemma run_top_level_eq:
  "run_top_level rt =
     (case min_expr rt (NdArray (IntArr [0])) of
        Inl e \<Rightarrow> (Some e, [''np'' \<mapsto> PyModule ''numpy'', ''bern_grid'' \<mapsto> PyFunction ''bern_grid'',
                          ''theta'' \<mapsto> NdArray (IntArr [0])])
      | Inr m \<Rightarrow>
          (case normalise_expr rt m of
             Inl e \<Rightarrow> (Some e, [''np'' \<mapsto> PyModule ''numpy'', ''bern_grid'' \<mapsto> PyFunction ''bern_grid'',
                          ''theta'' \<mapsto> NdArray (IntArr [0]), ''p_theta'' \<mapsto> m])
           | Inr q \<Rightarrow> (Some (NameError ''c''),
                         [''np'' \<mapsto> PyModule ''numpy'', ''bern_grid'' \<mapsto> PyFunction ''bern_grid'',
                          ''theta'' \<mapsto> NdArray (IntArr [0]), ''p_theta'' \<mapsto> q])))"
  by (simp add: run_top_level_def module_statements_def stmt_defs np_arange_demo split: sum.splits)

lemma compile_module_source: "compile_module module_source = Inl SyntaxError"
  by (simp add: compile_module_def module_source_def)

lemma import_module_eq: "import_module rt = (Some SyntaxError, Map.empty)"
  by (simp add: import_module_def compile_module_source)

lemma bern_grid_without_Data:
  assumes "g ''Data'' = None"
  shows "\<exists>e. bern_grid g th p d c n = Inl e"
proof (cases "numpy_module g")
  case (Inl e)
  then show ?thesis by (simp add: bern_grid_def bind_err_def)
next
  case (Inr u)
  with assms show ?thesis by (simp add: bern_grid_def lookup_def bind_err_def)
qed

lemma bern_grid_no_Data:
  "g ''np'' = Some (PyModule ''numpy'') \<Longrightarrow> g ''Data'' = None \<Longrightarrow> bern_grid g th p d c n = Inl (NameError ''Data'')"
  by (simp add: bern_grid_def numpy_module_def lookup_def bind_err_def)

lemma likelihood_line_float: "likelihood_line (FloatArr xs) k m = Inl TypeError"
  by (simp add: likelihood_line_def bind_err_def)

lemma bern_grid_float:
  "g ''np'' = Some (PyModule ''numpy'') \<Longrightarrow> g ''Data'' = Some v \<Longrightarrow> np_array th = FloatArr xs \<Longrightarrow> bern_grid g th p d c n = Inl TypeError"
  by (simp add: bern_grid_def numpy_module_def lookup_def bind_err_def likelihood_line_float)

section \<open>What a call of \<^verbatim>\<open>bern_grid\<close> does\<close>

text \<open>
  C9. Every call of \<^verbatim>\<open>bern_grid\<close> raises before the posterior is computed. The file
  never binds \<^verbatim>\<open>Data\<close>, and in globals that bind \<^verbatim>\<open>np\<close> and not \<^verbatim>\<open>Data\<close> line 37
  raises \<^verbatim>\<open>NameError\<close> for it on every input. With \<^verbatim>\<open>Data\<close> bound, a grid that \<^verbatim>\<open>np.array\<close>
  turns into a \<^verbatim>\<open>float64\<close> array makes line 41 raise \<^verbatim>\<open>TypeError\<close>: its \<^verbatim>\<open>^\<close> is bitwise
  xor, not a power. In any globals without \<^verbatim>\<open>Data\<close>, whatever else they bind, the call
  raises.
\<close>

theorem bern_grid_raises_before_posterior:
  "(g ''np'' = Some (PyModule ''numpy'') \<and> g ''Data'' = None
        \<longrightarrow> bern_grid g theta p_theta real_data credib n_to_plot = Inl (NameError ''Data''))
   \<and> (g ''np'' = Some (PyModule ''numpy'') \<and> g ''Data'' = Some v \<and> np_array theta = FloatArr xs
        \<longrightarrow> bern_grid g theta p_theta real_data credib n_to_plot = Inl TypeError)
   \<and> (g ''Data'' = None
        \<longrightarrow> (\<exists>e. bern_grid g theta p_theta real_data credib n_to_plot = Inl e))"
  using bern_grid_no_Data[of g theta p_theta real_data credib n_to_plot]
    bern_grid_float[of g v theta xs p_theta real_data credib n_to_plot]
    bern_grid_without_Data[of g theta p_theta real_data credib n_to_plot]
  by simp

text \<open>
  The hypotheses of C9 at concrete globals: with \<^verbatim>\<open>np\<close> and without \<^verbatim>\<open>Data\<close>, with both,
  and with neither.
\<close>

theorem bern_grid_raises_before_posterior_witness:
  "[''np'' \<mapsto> PyModule ''numpy''] ''np'' = Some (PyModule ''numpy'')
   \<and> [''np'' \<mapsto> PyModule ''numpy''] ''Data'' = None
   \<and> bern_grid [''np'' \<mapsto> PyModule ''numpy'']
        [PyFloat (Fin (1/2))] [PyFloat (Fin 1)] [PyInt 1] (Fin (95/100)) None = Inl (NameError ''Data'')
   \<and> [''np'' \<mapsto> PyModule ''numpy'', ''Data'' \<mapsto> NdArray (IntArr [1])] ''np'' = Some (PyModule ''numpy'')
   \<and> [''np'' \<mapsto> PyModule ''numpy'', ''Data'' \<mapsto> NdArray (IntArr [1])] ''Data'' = Some (NdArray (IntArr [1]))
   \<and> np_array [PyFloat (Fin (1/2))] = FloatArr [Fin (1/2)]
   \<and> bern_grid [''np'' \<mapsto> PyModule ''numpy'', ''Data'' \<mapsto> NdArray (IntArr [1])]
        [PyFloat (Fin (1/2))] [PyFloat (Fin 1)] [PyInt 1] (Fin (95/100)) None = Inl TypeError
   \<and> (Map.empty :: globals) ''Data'' = None
   \<and> (\<exists>e. bern_grid Map.empty
        [PyFloat (Fin (1/2))] [PyFloat (Fin 1)] [PyInt 1] (Fin (95/100)) None = Inl e)"
proof -
  let ?g0 = "[''np'' \<mapsto> PyModule ''numpy'']"
  let ?g1 = "[''np'' \<mapsto> PyModule ''numpy'', ''Data'' \<mapsto> NdArray (IntArr [1])]"
  have a: "?g0 ''np'' = Some (PyModule ''numpy'')" "?g0 ''Data'' = None"
    "?g1 ''np'' = Some (PyModule ''numpy'')" "?g1 ''Data'' = Some (NdArray (IntArr [1]))"
    "np_array [PyFloat (Fin (1/2))] = FloatArr [Fin (1/2)]"
    "(Map.empty :: globals) ''Data'' = None"
    by (simp_all add: np_array_def)
  show ?thesis
    using a
      bern_grid_raises_before_posterior[of ?g0 "[PyFloat (Fin (1/2))]" "[PyFloat (Fin 1)]" "[PyInt 1]"
        "Fin (95/100)" None]
      bern_grid_raises_before_posterior[of ?g1 "[PyFloat (Fin (1/2))]" "[PyFloat (Fin 1)]" "[PyInt 1]"
        "Fin (95/100)" None "NdArray (IntArr [1])" "[Fin (1/2)]"]
      bern_grid_raises_before_posterior[of Map.empty "[PyFloat (Fin (1/2))]" "[PyFloat (Fin 1)]" "[PyInt 1]"
        "Fin (95/100)" None]
    by blast
qed

section \<open>Importing the module\<close>

text \<open>
  C10, as stated, fails. The import does not get as far as the demo code: the file does
  not compile, the exception is \<^verbatim>\<open>SyntaxError\<close>, and not even \<^verbatim>\<open>np\<close>, \<^verbatim>\<open>bern_grid\<close> or
  \<^verbatim>\<open>theta\<close> is bound, which the first three statements would bind if any statement
  ran. Were the statements run, with a numpy whose \<^verbatim>\<open>np.min\<close> raises \<^verbatim>\<open>TypeError\<close> for an
  array as the axis, the run would end on line 129, before any of \<^verbatim>\<open>c\<close>, \<^verbatim>\<open>openGraph\<close>,
  \<^verbatim>\<open>BernGrid\<close> is called. And on the demo grid \<open>[0]\<close> with one observed head, the code's
  own lines 41 to 45 give likelihood 1 and evidence 1 for the prior \<open>[1.0]\<close>, not 0.
\<close>

theorem import_counterexample:
  "import_module \<lparr> min_expr = (\<lambda>_. Inl TypeError), normalise_expr = (\<lambda>_. Inl TypeError),
        call = (\<lambda>_ _. Inl TypeError) \<rparr> = (Some SyntaxError, Map.empty)
   \<and> snd (import_module \<lparr> min_expr = (\<lambda>_. Inl TypeError), normalise_expr = (\<lambda>_. Inl TypeError),
        call = (\<lambda>_ _. Inl TypeError) \<rparr>) ''theta'' = None
   \<and> run_top_level \<lparr> min_expr = (\<lambda>_. Inl TypeError), normalise_expr = (\<lambda>_. Inl TypeError),
        call = (\<lambda>_ _. Inl TypeError) \<rparr>
      = (Some TypeError,
         [''np'' \<mapsto> PyModule ''numpy'', ''bern_grid'' \<mapsto> PyFunction ''bern_grid'',
          ''theta'' \<mapsto> NdArray (IntArr [0])])
   \<and> bern_grid [''np'' \<mapsto> PyModule ''numpy'', ''Data'' \<mapsto> NdArray (IntArr [1])]
        [PyInt 0] [PyFloat (Fin 1)] [PyInt 1] (Fin (95/100)) None
      = Inr \<lparr> ones = 1, N = 1, p_data_given_theta = IntArr [1],
              p_data = NpFloat (Fin 1), p_theta_given_data = [Fin 1] \<rparr>"
  by (simp add: import_module_eq run_top_level_eq run_defs)

text \<open>
  C10, amended. Importing the module always fails before \<^verbatim>\<open>bern_grid\<close> can be used, and
  it fails at compile time: the file is not valid Python, the import raises
  \<^verbatim>\<open>SyntaxError\<close> before any statement runs, whatever the interpreter and numpy would do
  on the statements, and it binds no name, so no caller can obtain the function by
  importing the file. The demo grid expression \<^verbatim>\<open>np.arange(0, 1, 11)\<close> denotes the single
  point 0, an \<^verbatim>\<open>int64\<close> array. With one observed head this is the degenerate case of the
  specification, whose likelihood, and so whose evidence for any prior, is 0 there. The
  code's own lines 41 to 45 do not raise on this grid once \<^verbatim>\<open>np\<close> and \<^verbatim>\<open>Data\<close> are given:
  their likelihood is 1 and their evidence is the prior mass.
\<close>

theorem import_module_fails:
  "compile_module module_source = Inl SyntaxError
   \<and> import_module rt = (Some SyntaxError, Map.empty)
   \<and> snd (import_module rt) x = None
   \<and> np_arange 0 1 11 = Inr (IntArr [0])
   \<and> likelihood_spec 0 1 1 = 0
   \<and> evidence_spec [0] [q] 1 1 = 0
   \<and> bern_grid [''np'' \<mapsto> PyModule ''numpy'', ''Data'' \<mapsto> NdArray (IntArr [1])]
        [PyInt 0] [PyFloat (Fin q)] [PyInt 1] credib n_to_plot
      = Inr \<lparr> ones = 1, N = 1, p_data_given_theta = IntArr [1],
              p_data = NpFloat (Fin q), p_theta_given_data = [fdiv (Fin q) (Fin q)] \<rparr>"
  by (simp add: compile_module_source import_module_eq np_arange_demo likelihood_spec_def
      evidence_spec_def bern_grid_def numpy_module_def lookup_def bind_err_def np_array_def
      likelihood_line_def broadcast_def float_of_int64_def)

section \<open>The likelihood, the posterior and the specification's kernel\<close>

text \<open>
  C1. The specification's likelihood is the binomial kernel. The code's line 41 is not:
  on the grid \<open>[0.5]\<close> with one head the call raises (\<^verbatim>\<open>NameError\<close> without the global
  \<^verbatim>\<open>Data\<close>, \<^verbatim>\<open>TypeError\<close> with it) where the kernel is \<open>0.5\<close>; on the integer grid \<open>[0, 1]\<close>
  with two heads in three observations it computes \<open>[3, 0]\<close> where the kernel is \<open>[0, 0]\<close>.
\<close>

theorem likelihood_line_is_xor:
  "bern_grid [''np'' \<mapsto> PyModule ''numpy'']
     [PyFloat (Fin (1/2))] [PyFloat (Fin 1)] [PyInt 1] (Fin (95/100)) None
     = Inl (NameError ''Data'')
   \<and> bern_grid [''np'' \<mapsto> PyModule ''numpy'', ''Data'' \<mapsto> NdArray (IntArr [1])]
       [PyFloat (Fin (1/2))] [PyFloat (Fin 1)] [PyInt 1] (Fin (95/100)) None
     = Inl TypeError
   \<and> likelihood_spec (1/2) 1 1 = 1/2
   \<and> bern_grid [''np'' \<mapsto> PyModule ''numpy'', ''Data'' \<mapsto> NdArray (IntArr [1, 1, 0])]
       [PyInt 0, PyInt 1] [PyFloat (Fin (1/2)), PyFloat (Fin (1/2))] [PyInt 1, PyInt 1, PyInt 0]
       (Fin (95/100)) None
     = Inr \<lparr> ones = 2, N = 3, p_data_given_theta = IntArr [3, 0],
             p_data = NpFloat (Fin (3/2)), p_theta_given_data = [Fin 1, Fin 0] \<rparr>
   \<and> map (\<lambda>\<theta>. likelihood_spec \<theta> 2 3) [0, 1] = [0, 0]"
  by (simp add: run_defs likelihood_spec_def)

text \<open>
  C2. On the specification's concrete scenario (a valid input, whose evidence \<open>0.05674\<close>
  is not zero and whose posterior sums to 1 in the specification's terms) the code
  raises instead of returning a posterior.
\<close>

theorem no_posterior_on_spec_scenario:
  "bern_grid [''np'' \<mapsto> PyModule ''numpy'']
     [PyFloat (Fin (1/10)), PyFloat (Fin (3/10)), PyFloat (Fin (5/10)), PyFloat (Fin (7/10)),
      PyFloat (Fin (9/10))]
     [PyFloat (Fin (1/10)), PyFloat (Fin (2/10)), PyFloat (Fin (4/10)), PyFloat (Fin (2/10)),
      PyFloat (Fin (1/10))]
     [PyInt 1, PyInt 1, PyInt 1, PyInt 0] (Fin (95/100)) None
     = Inl (NameError ''Data'')
   \<and> bern_grid [''np'' \<mapsto> PyModule ''numpy'', ''Data'' \<mapsto> NdArray (IntArr [1, 1, 1, 0])]
     [PyFloat (Fin (1/10)), PyFloat (Fin (3/10)), PyFloat (Fin (5/10)), PyFloat (Fin (7/10)),
      PyFloat (Fin (9/10))]
     [PyFloat (Fin (1/10)), PyFloat (Fin (2/10)), PyFloat (Fin (4/10)), PyFloat (Fin (2/10)),
      PyFloat (Fin (1/10))]
     [PyInt 1, PyInt 1, PyInt 1, PyInt 0] (Fin (95/100)) None
     = Inl TypeError
   \<and> evidence_spec [1/10, 3/10, 5/10, 7/10, 9/10] [1/10, 2/10, 4/10, 2/10, 1/10] 3 4 = 5674 / 100000
   \<and> sum_list (posterior_spec [1/10, 3/10, 5/10, 7/10, 9/10] [1/10, 2/10, 4/10, 2/10, 1/10] 3 4) = 1"
  by (simp add: run_defs likelihood_spec_def evidence_spec_def posterior_spec_def power_numeral_reduce
      power3_eq_cube)

text \<open>
  C5. With no observations the specification's posterior is the prior. The code raises
  on a \<^verbatim>\<open>float\<close> grid, and on the integer grid \<open>[0, 1]\<close> with prior \<open>[0.5, 0.5]\<close> its
  likelihood is the grid itself and its posterior \<open>[0, 1]\<close>.
\<close>

theorem empty_observations_not_prior:
  "bern_grid [''np'' \<mapsto> PyModule ''numpy'']
     [PyFloat (Fin (1/4)), PyFloat (Fin (3/4))] [PyFloat (Fin (1/2)), PyFloat (Fin (1/2))] []
     (Fin (95/100)) None
     = Inl (NameError ''Data'')
   \<and> bern_grid [''np'' \<mapsto> PyModule ''numpy'', ''Data'' \<mapsto> NdArray (np_array [])]
     [PyFloat (Fin (1/4)), PyFloat (Fin (3/4))] [PyFloat (Fin (1/2)), PyFloat (Fin (1/2))] []
     (Fin (95/100)) None
     = Inl TypeError
   \<and> bern_grid [''np'' \<mapsto> PyModule ''numpy'', ''Data'' \<mapsto> NdArray (np_array [])]
     [PyInt 0, PyInt 1] [PyFloat (Fin (1/2)), PyFloat (Fin (1/2))] []
     (Fin (95/100)) None
     = Inr \<lparr> ones = 0, N = 0, p_data_given_theta = IntArr [0, 1],
             p_data = NpFloat (Fin (1/2)), p_theta_given_data = [Fin 0, Fin 1] \<rparr>
   \<and> posterior_spec [0, 1] [1/2, 1/2] 0 0 = [1/2, 1/2]"
  by (simp add: run_defs likelihood_spec_def evidence_spec_def posterior_spec_def)

text \<open>
  C8. Two calls with identical arguments give different results when the module global
  \<^verbatim>\<open>Data\<close> differs between them: the result is not a function of the arguments alone.
\<close>

theorem result_depends_on_global_Data:
  "bern_grid [''np'' \<mapsto> PyModule ''numpy'', ''Data'' \<mapsto> NdArray (IntArr [1, 1])]
     [PyInt 0, PyInt 1] [PyFloat (Fin (1/2)), PyFloat (Fin (1/2))] [PyInt 1, PyInt 1]
     (Fin (95/100)) None
     = Inr \<lparr> ones = 2, N = 2, p_data_given_theta = IntArr [2, 1],
             p_data = NpFloat (Fin (3/2)), p_theta_given_data = [Fin (2/3), Fin (1/3)] \<rparr>
   \<and> bern_grid [''np'' \<mapsto> PyModule ''numpy'', ''Data'' \<mapsto> NdArray (IntArr [0])]
     [PyInt 0, PyInt 1] [PyFloat (Fin (1/2)), PyFloat (Fin (1/2))] [PyInt 1, PyInt 1]
     (Fin (95/100)) None
     = Inr \<lparr> ones = 0, N = 2, p_data_given_theta = IntArr [2, 3],
             p_data = NpFloat (Fin (5/2)), p_theta_given_data = [Fin (2/5), Fin (3/5)] \<rparr>
   \<and> bern_grid [''np'' \<mapsto> PyModule ''numpy'']
     [PyInt 0, PyInt 1] [PyFloat (Fin (1/2)), PyFloat (Fin (1/2))] [PyInt 1, PyInt 1]
     (Fin (95/100)) None
     = Inl (NameError ''Data'')"
  by (simp add: run_defs)

section \<open>Errors\<close>

text \<open>
  C3, as stated, fails: on grid \<open>[1]\<close>, prior \<open>[1.0]\<close>, observations \<open>[1, 0]\<close> (and
  \<^verbatim>\<open>Data\<close> holding the same observations) the evidence evaluates to 0, no error is
  reported and the posterior is \<open>[nan]\<close>. On the specification's degenerate input the
  exceptions are \<^verbatim>\<open>NameError\<close> or \<^verbatim>\<open>TypeError\<close>, raised before any evidence exists.
\<close>

theorem zero_evidence_counterexample:
  "bern_grid [''np'' \<mapsto> PyModule ''numpy'', ''Data'' \<mapsto> NdArray (IntArr [1, 0])]
     [PyInt 1] [PyFloat (Fin 1)] [PyInt 1, PyInt 0] (Fin (95/100)) None
     = Inr \<lparr> ones = 1, N = 2, p_data_given_theta = IntArr [0],
             p_data = NpFloat (Fin 0), p_theta_given_data = [NaN] \<rparr>
   \<and> bern_grid [''np'' \<mapsto> PyModule ''numpy'']
       [PyFloat (Fin 0)] [PyFloat (Fin 1)] [PyInt 1] (Fin (95/100)) None
     = Inl (NameError ''Data'')
   \<and> bern_grid [''np'' \<mapsto> PyModule ''numpy'', ''Data'' \<mapsto> NdArray (IntArr [1])]
       [PyFloat (Fin 0)] [PyFloat (Fin 1)] [PyInt 1] (Fin (95/100)) None
     = Inl TypeError"
  by (simp add: run_defs)

lemma len_np_array: "len (np_array xs) = length xs"
  by (simp add: np_array_def)

lemma likelihood_line_Inr:
  assumes "likelihood_line a k m = Inr L"
  shows "\<exists>vs ws. a = IntArr vs \<and> L = IntArr ws \<and> length ws = length vs"
proof (cases a)
  case (IntArr vs)
  with assms show ?thesis
    by (auto simp: likelihood_line_def bind_err_def broadcast_def)
next
  case (FloatArr xs)
  with assms show ?thesis
    by (simp add: likelihood_line_float)
qed

lemma np_multiply_IntArr_Inr:
  "length ws = len b \<or> length ws = 1 \<or> len b = 1 \<Longrightarrow> \<exists>w. np_multiply (IntArr ws) b = Inr w"
  by (cases b) (auto simp: bind_err_def broadcast_def)

lemma np_multiply_IntArr_Inl:
  "length ws \<noteq> len b \<Longrightarrow> length ws \<noteq> 1 \<Longrightarrow> len b \<noteq> 1 \<Longrightarrow> np_multiply (IntArr ws) b = Inl ValueError"
  by (cases b) (auto simp: bind_err_def broadcast_def)

lemma fdiv_zero_not_finite: "\<not> is_finite (fdiv x (Fin 0))"
  by (cases x) (simp_all add: scale_inf_def)

lemma true_divide_zero:
  "scalar_to_float s = Fin 0 \<Longrightarrow> list_all (\<lambda>x. \<not> is_finite x) (np_true_divide w s)"
  by (cases w) (simp_all add: list_all_iff fdiv_zero_not_finite)

lemma bern_grid_steps:
  assumes "numpy_module g = Inr ()" and "g ''Data'' = Some D"
    and "likelihood_line (np_array theta) (count_eq_1 D) (len (np_array real_data)) = Inr L"
  shows "bern_grid g theta p_theta real_data credib n_to_plot =
     bind_err (np_multiply L (np_array p_theta)) (\<lambda>w.
       Inr \<lparr> ones = count_eq_1 D, N = len (np_array real_data), p_data_given_theta = L,
             p_data = np_sum w, p_theta_given_data = np_true_divide w (np_sum w) \<rparr>)"
  using assms by (simp add: bern_grid_def lookup_def bind_err_def Let_def split: sum.splits)

lemma bern_grid_ignores_credib:
  "bern_grid g theta p_theta real_data credib' n_to_plot'
     = bern_grid g theta p_theta real_data credib n_to_plot"
  by (simp add: bern_grid_def)

text \<open>
  C3, amended. \<^verbatim>\<open>bern_grid\<close> has no check of the evidence. On every input on which the
  statements up to line 44 succeed and the evidence evaluates to 0, line 45 divides by
  it without raising: the call goes on with a posterior whose every element is \<^verbatim>\<open>nan\<close> or
  an infinity.
\<close>

theorem zero_evidence_divides:
  assumes "numpy_module g = Inr ()" and "g ''Data'' = Some D"
    and "likelihood_line (np_array theta) (count_eq_1 D) (len (np_array real_data)) = Inr L"
    and "np_multiply L (np_array p_theta) = Inr w"
    and "scalar_to_float (np_sum w) = Fin 0"
  shows "bern_grid g theta p_theta real_data credib n_to_plot =
           Inr \<lparr> ones = count_eq_1 D, N = len (np_array real_data), p_data_given_theta = L,
                 p_data = np_sum w, p_theta_given_data = np_true_divide w (np_sum w) \<rparr>
         \<and> list_all (\<lambda>x. \<not> is_finite x) (np_true_divide w (np_sum w))"
  using bern_grid_steps[OF assms(1-3)] assms(4) true_divide_zero[OF assms(5)]
  by (simp add: bind_err_def)

text \<open>The hypotheses of the amended C3 on grid \<open>[1]\<close>, prior \<open>[1.0]\<close>, observations \<open>[1, 0]\<close>.\<close>

theorem zero_evidence_divides_witness:
  "numpy_module [''np'' \<mapsto> PyModule ''numpy'', ''Data'' \<mapsto> NdArray (IntArr [1, 0])] = Inr ()
   \<and> [''np'' \<mapsto> PyModule ''numpy'', ''Data'' \<mapsto> NdArray (IntArr [1, 0])] ''Data''
        = Some (NdArray (IntArr [1, 0]))
   \<and> likelihood_line (np_array [PyInt 1]) (count_eq_1 (NdArray (IntArr [1, 0])))
        (len (np_array [PyInt 1, PyInt 0])) = Inr (IntArr [0])
   \<and> np_multiply (IntArr [0]) (np_array [PyFloat (Fin 1)]) = Inr (FloatArr [Fin 0])
   \<and> scalar_to_float (np_sum (FloatArr [Fin 0])) = Fin 0
   \<and> bern_grid [''np'' \<mapsto> PyModule ''numpy'', ''Data'' \<mapsto> NdArray (IntArr [1, 0])]
        [PyInt 1] [PyFloat (Fin 1)] [PyInt 1, PyInt 0] (Fin (95/100)) None
      = Inr \<lparr> ones = 1, N = 2, p_data_given_theta = IntArr [0],
              p_data = NpFloat (Fin 0), p_theta_given_data = [NaN] \<rparr>
   \<and> list_all (\<lambda>x. \<not> is_finite x) [NaN]"
proof -
  let ?g = "[''np'' \<mapsto> PyModule ''numpy'', ''Data'' \<mapsto> NdArray (IntArr [1, 0])]"
  have h: "numpy_module ?g = Inr ()"
    "?g ''Data'' = Some (NdArray (IntArr [1, 0]))"
    "likelihood_line (np_array [PyInt 1]) (count_eq_1 (NdArray (IntArr [1, 0])))
        (len (np_array [PyInt 1, PyInt 0])) = Inr (IntArr [0])"
    "np_multiply (IntArr [0]) (np_array [PyFloat (Fin 1)]) = Inr (FloatArr [Fin 0])"
    "scalar_to_float (np_sum (FloatArr [Fin 0])) = Fin 0"
    by (simp_all add: run_defs)
  from zero_evidence_divides[OF h, of "Fin (95/100)" None] h show ?thesis
    by (simp add: run_defs)
qed

text \<open>
  C4, as stated, fails: a grid of length 2 with a prior of length 1 and a credible mass
  of 2 raises nothing; numpy broadcasts the prior.
\<close>

theorem no_validation_counterexample:
  "length [PyInt 0, PyInt 1] \<noteq> length [PyFloat (Fin 1)]
   \<and> bern_grid [''np'' \<mapsto> PyModule ''numpy'', ''Data'' \<mapsto> NdArray (IntArr [1])]
     [PyInt 0, PyInt 1] [PyFloat (Fin 1)] [PyInt 1] (Fin 2) None
     = Inr \<lparr> ones = 1, N = 1, p_data_given_theta = IntArr [1, 1],
             p_data = NpFloat (Fin 2), p_theta_given_data = [Fin (1/2), Fin (1/2)] \<rparr>"
  by (simp add: run_defs)

text \<open>
  C4, amended. \<^verbatim>\<open>bern_grid\<close> validates nothing. Lines 34 to 45 never read the credible
  mass (nor \<^verbatim>\<open>n_to_plot\<close>): the outcome is the same for every value of it. The lengths of
  grid and prior are never compared: when they differ and the likelihood line has
  succeeded, numpy's broadcasting decides at line 44. If one of the two has length 1 no
  error is raised and the posterior is computed; otherwise the product raises
  \<^verbatim>\<open>ValueError\<close>, after the likelihood has been computed.
\<close>

theorem lengths_left_to_numpy:
  "bern_grid g theta p_theta real_data credib' n_to_plot'
     = bern_grid g theta p_theta real_data credib n_to_plot
   \<and> (numpy_module g = Inr () \<and> g ''Data'' = Some D
        \<and> likelihood_line (np_array theta) (count_eq_1 D) (len (np_array real_data)) = Inr L
        \<and> length theta \<noteq> length p_theta
      \<longrightarrow> (if length theta = 1 \<or> length p_theta = 1
           then \<exists>r. bern_grid g theta p_theta real_data credib n_to_plot = Inr r
                    \<and> p_data_given_theta r = L
           else bern_grid g theta p_theta real_data credib n_to_plot = Inl ValueError))"
proof (intro conjI impI)
  show "bern_grid g theta p_theta real_data credib' n_to_plot'
     = bern_grid g theta p_theta real_data credib n_to_plot"
    by (rule bern_grid_ignores_credib)
next
  assume a: "numpy_module g = Inr () \<and> g ''Data'' = Some D
        \<and> likelihood_line (np_array theta) (count_eq_1 D) (len (np_array real_data)) = Inr L
        \<and> length theta \<noteq> length p_theta"
  then have L: "likelihood_line (np_array theta) (count_eq_1 D) (len (np_array real_data)) = Inr L"
    by simp
  from likelihood_line_Inr[OF L] obtain vs ws where
    vs: "np_array theta = IntArr vs" and ws: "L = IntArr ws" and lw: "length ws = length vs"
    by blast
  from vs have "length vs = length theta"
    using len_np_array[of theta] by simp
  with lw have lt: "length ws = length theta" by simp
  note steps = bern_grid_steps[of g D theta real_data L p_theta credib n_to_plot]
  show "if length theta = 1 \<or> length p_theta = 1
           then \<exists>r. bern_grid g theta p_theta real_data credib n_to_plot = Inr r
                    \<and> p_data_given_theta r = L
           else bern_grid g theta p_theta real_data credib n_to_plot = Inl ValueError"
  proof (cases "length theta = 1 \<or> length p_theta = 1")
    case True
    then obtain w where "np_multiply (IntArr ws) (np_array p_theta) = Inr w"
      using np_multiply_IntArr_Inr[of ws "np_array p_theta"] lt len_np_array[of p_theta] by auto
    with a steps ws True show ?thesis by (simp add: bind_err_def)
  next
    case False
    then have "np_multiply (IntArr ws) (np_array p_theta) = Inl ValueError"
      using np_multiply_IntArr_Inl[of ws "np_array p_theta"] lt len_np_array[of p_theta] a by auto
    with a steps ws False show ?thesis by (simp add: bind_err_def)
  qed
qed

text \<open>
  The hypotheses of the amended C4 at lengths 2 and 1 (broadcast) and at lengths 3 and 2
  (\<^verbatim>\<open>ValueError\<close>).
\<close>

theorem lengths_left_to_numpy_witness:
  "numpy_module [''np'' \<mapsto> PyModule ''numpy'', ''Data'' \<mapsto> NdArray (IntArr [1])] = Inr ()
   \<and> [''np'' \<mapsto> PyModule ''numpy'', ''Data'' \<mapsto> NdArray (IntArr [1])] ''Data'' = Some (NdArray (IntArr [1]))
   \<and> likelihood_line (np_array [PyInt 0, PyInt 1]) (count_eq_1 (NdArray (IntArr [1])))
        (len (np_array [PyInt 1])) = Inr (IntArr [1, 1])
   \<and> length [PyInt 0, PyInt 1] \<noteq> length [PyFloat (Fin 1)]
   \<and> (\<exists>r. bern_grid [''np'' \<mapsto> PyModule ''numpy'', ''Data'' \<mapsto> NdArray (IntArr [1])]
              [PyInt 0, PyInt 1] [PyFloat (Fin 1)] [PyInt 1] (Fin (95/100)) None = Inr r
            \<and> p_data_given_theta r = IntArr [1, 1])
   \<and> bern_grid [''np'' \<mapsto> PyModule ''numpy'', ''Data'' \<mapsto> NdArray (IntArr [1])]
        [PyInt 0, PyInt 1] [PyFloat (Fin 1)] [PyInt 1] (Fin 2) (Some 3)
      = bern_grid [''np'' \<mapsto> PyModule ''numpy'', ''Data'' \<mapsto> NdArray (IntArr [1])]
        [PyInt 0, PyInt 1] [PyFloat (Fin 1)] [PyInt 1] (Fin (95/100)) None
   \<and> likelihood_line (np_array [PyInt 0, PyInt 1, PyInt 0]) (count_eq_1 (NdArray (IntArr [1])))
        (len (np_array [PyInt 1])) = Inr (IntArr [1, 1, 1])
   \<and> length [PyInt 0, PyInt 1, PyInt 0] \<noteq> length [PyFloat (Fin (1/2)), PyFloat (Fin (1/2))]
   \<and> bern_grid [''np'' \<mapsto> PyModule ''numpy'', ''Data'' \<mapsto> NdArray (IntArr [1])]
        [PyInt 0, PyInt 1, PyInt 0] [PyFloat (Fin (1/2)), PyFloat (Fin (1/2))] [PyInt 1]
        (Fin (95/100)) None = Inl ValueError"
proof -
  let ?g = "[''np'' \<mapsto> PyModule ''numpy'', ''Data'' \<mapsto> NdArray (IntArr [1])]"
  have h: "numpy_module ?g = Inr ()"
    "?g ''Data'' = Some (NdArray (IntArr [1]))"
    "likelihood_line (np_array [PyInt 0, PyInt 1]) (count_eq_1 (NdArray (IntArr [1])))
        (len (np_array [PyInt 1])) = Inr (IntArr [1, 1])"
    "length [PyInt 0, PyInt 1] \<noteq> length [PyFloat (Fin 1)]"
    "likelihood_line (np_array [PyInt 0, PyInt 1, PyInt 0]) (count_eq_1 (NdArray (IntArr [1])))
        (len (np_array [PyInt 1])) = Inr (IntArr [1, 1, 1])"
    "length [PyInt 0, PyInt 1, PyInt 0] \<noteq> length [PyFloat (Fin (1/2)), PyFloat (Fin (1/2))]"
    by (simp_all add: run_defs)
  have a: "\<exists>r. bern_grid ?g [PyInt 0, PyInt 1] [PyFloat (Fin 1)] [PyInt 1] (Fin (95/100)) None = Inr r
            \<and> p_data_given_theta r = IntArr [1, 1]"
    and b: "bern_grid ?g [PyInt 0, PyInt 1] [PyFloat (Fin 1)] [PyInt 1] (Fin 2) (Some 3)
      = bern_grid ?g [PyInt 0, PyInt 1] [PyFloat (Fin 1)] [PyInt 1] (Fin (95/100)) None"
    using lengths_left_to_numpy[of ?g "[PyInt 0, PyInt 1]" "[PyFloat (Fin 1)]" "[PyInt 1]"
        "Fin 2" "Some 3" "Fin (95/100)" None "NdArray (IntArr [1])" "IntArr [1, 1]"] h(1-4)
    by simp_all
  have c: "bern_grid ?g [PyInt 0, PyInt 1, PyInt 0] [PyFloat (Fin (1/2)), PyFloat (Fin (1/2))]
        [PyInt 1] (Fin (95/100)) None = Inl ValueError"
    using lengths_left_to_numpy[of ?g "[PyInt 0, PyInt 1, PyInt 0]"
        "[PyFloat (Fin (1/2)), PyFloat (Fin (1/2))]" "[PyInt 1]"
        "Fin 2" "Some 3" "Fin (95/100)" None "NdArray (IntArr [1])" "IntArr [1, 1, 1]"] h(1,2,5,6)
    by simp
  from h a b c show ?thesis by blast
qed

section \<open>The observations\<close>

lemma length_filter_mset:
  "mset xs = mset ys \<Longrightarrow> length (filter P (map f xs)) = length (filter P (map f ys))"
proof -
  assume "mset xs = mset ys"
  then have "mset (filter P (map f xs)) = mset (filter P (map f ys))"
    by (simp only: mset_filter mset_map)
  then show ?thesis by (rule mset_eq_length)
qed

lemma np_array_kind_mset:
  assumes "mset xs = mset ys"
  shows "(xs \<noteq> [] \<and> list_all is_int xs) = (ys \<noteq> [] \<and> list_all is_int ys)"
proof -
  from assms have "set xs = set ys" by (rule mset_eq_setD)
  moreover from assms have "length xs = length ys" by (rule mset_eq_length)
  ultimately show ?thesis by (auto simp: list_all_iff)
qed

lemma count_eq_1_np_array:
  assumes "mset xs = mset ys"
  shows "count_eq_1 (NdArray (np_array xs)) = count_eq_1 (NdArray (np_array ys))"
proof (cases "ys \<noteq> [] \<and> list_all is_int ys")
  case True
  with np_array_kind_mset[OF assms] have "xs \<noteq> [] \<and> list_all is_int xs" by simp
  with True show ?thesis
    using length_filter_mset[OF assms, of "\<lambda>w. w = 1" the_int]
    by (simp add: np_array_def)
next
  case False
  with np_array_kind_mset[OF assms] have "\<not> (xs \<noteq> [] \<and> list_all is_int xs)" by simp
  with False show ?thesis
    using length_filter_mset[OF assms, of "\<lambda>x. x = Fin 1" to_float]
    by (auto simp: np_array_def)
qed

lemma bern_grid_observations:
  assumes "count_eq_1 D' = count_eq_1 D" and "length d' = length d"
  shows "bern_grid (g(''Data'' \<mapsto> D')) theta p_theta d' credib n_to_plot
       = bern_grid (g(''Data'' \<mapsto> D)) theta p_theta d credib n_to_plot"
  using assms
  by (simp add: bern_grid_def numpy_module_def lookup_def bind_err_def len_np_array Let_def
      cong: sum.case_cong)

lemma bern_grid_length_only:
  assumes "length d' = length d"
  shows "bern_grid g theta p_theta d' credib n_to_plot = bern_grid g theta p_theta d credib n_to_plot"
  using assms by (simp add: bern_grid_def len_np_array)

text \<open>
  C6. Permuting the observation sequence changes nothing: the outcome of the call (the
  likelihood, the evidence and the posterior, or the exception) is the same, both when
  only the argument \<^verbatim>\<open>real_data\<close> is permuted and when the global \<^verbatim>\<open>Data\<close>, from which
  line 37 counts the ones, holds the same observations and is permuted with it. Of the
  argument only the length is used, of \<^verbatim>\<open>Data\<close> only the number of ones.
\<close>

theorem bern_grid_permutation_invariant:
  assumes "mset real_data' = mset real_data"
  shows "bern_grid g theta p_theta real_data' credib n_to_plot
           = bern_grid g theta p_theta real_data credib n_to_plot
       \<and> bern_grid (g(''Data'' \<mapsto> NdArray (np_array real_data'))) theta p_theta real_data' credib n_to_plot
           = bern_grid (g(''Data'' \<mapsto> NdArray (np_array real_data))) theta p_theta real_data credib n_to_plot"
proof -
  from assms have len: "length real_data' = length real_data" by (rule mset_eq_length)
  show ?thesis
    using bern_grid_length_only[OF len] bern_grid_observations[OF count_eq_1_np_array[OF assms] len]
    by simp
qed

text \<open>The hypothesis of C6 on observations \<open>[0, 1, 1]\<close> and \<open>[1, 1, 0]\<close>, where the call succeeds.\<close>

theorem bern_grid_permutation_invariant_witness:
  "mset [PyInt 0, PyInt 1, PyInt 1] = mset [PyInt 1, PyInt 1, PyInt 0]
   \<and> bern_grid ([''np'' \<mapsto> PyModule ''numpy''](''Data'' \<mapsto> NdArray (np_array [PyInt 0, PyInt 1, PyInt 1])))
       [PyInt 0, PyInt 1] [PyFloat (Fin (1/2)), PyFloat (Fin (1/2))] [PyInt 0, PyInt 1, PyInt 1]
       (Fin (95/100)) None
     = bern_grid ([''np'' \<mapsto> PyModule ''numpy''](''Data'' \<mapsto> NdArray (np_array [PyInt 1, PyInt 1, PyInt 0])))
       [PyInt 0, PyInt 1] [PyFloat (Fin (1/2)), PyFloat (Fin (1/2))] [PyInt 1, PyInt 1, PyInt 0]
       (Fin (95/100)) None
   \<and> bern_grid ([''np'' \<mapsto> PyModule ''numpy''](''Data'' \<mapsto> NdArray (np_array [PyInt 1, PyInt 1, PyInt 0])))
       [PyInt 0, PyInt 1] [PyFloat (Fin (1/2)), PyFloat (Fin (1/2))] [PyInt 1, PyInt 1, PyInt 0]
       (Fin (95/100)) None
     = Inr \<lparr> ones = 2, N = 3, p_data_given_theta = IntArr [3, 0],
             p_data = NpFloat (Fin (3/2)), p_theta_given_data = [Fin 1, Fin 0] \<rparr>"
proof -
  have m: "mset [PyInt 0, PyInt 1, PyInt 1] = mset [PyInt 1, PyInt 1, PyInt 0]"
    by simp
  have v: "bern_grid ([''np'' \<mapsto> PyModule ''numpy''](''Data'' \<mapsto> NdArray (np_array [PyInt 1, PyInt 1, PyInt 0])))
       [PyInt 0, PyInt 1] [PyFloat (Fin (1/2)), PyFloat (Fin (1/2))] [PyInt 1, PyInt 1, PyInt 0]
       (Fin (95/100)) None
     = Inr \<lparr> ones = 2, N = 3, p_data_given_theta = IntArr [3, 0],
             p_data = NpFloat (Fin (3/2)), p_theta_given_data = [Fin 1, Fin 0] \<rparr>"
    by (simp add: run_defs)
  from bern_grid_permutation_invariant[OF m, of "[''np'' \<mapsto> PyModule ''numpy'']"
      "[PyInt 0, PyInt 1]" "[PyFloat (Fin (1/2)), PyFloat (Fin (1/2))]" "Fin (95/100)" None] m v
  show ?thesis by blast
qed

section \<open>Properties of the highest density interval\<close>

lemma accumulate_take:
  "\<exists>k\<le>length js. accumulate ps cred js inc m = (inc @ take k js, m + sum_list (map ((!) ps) (take k js)))
       \<and> (cred \<le> m + sum_list (map ((!) ps) (take k js)) \<or> k = length js)
       \<and> (cred \<le> m \<or> js = [] \<or> 0 < k)"
proof (induction js arbitrary: inc m)
  case Nil
  then show ?case by simp
next
  case (Cons j js)
  show ?case
  proof (cases "cred \<le> m")
    case True
    then show ?thesis by (intro exI[of _ 0]) simp
  next
    case False
    from Cons.IH[of "inc @ [j]" "m + ps ! j"] obtain k where
      k: "k \<le> length js"
      "accumulate ps cred js (inc @ [j]) (m + ps ! j) =
         ((inc @ [j]) @ take k js, (m + ps ! j) + sum_list (map ((!) ps) (take k js)))"
      "cred \<le> (m + ps ! j) + sum_list (map ((!) ps) (take k js)) \<or> k = length js"
      by blast
    with False show ?thesis
      by (intro exI[of _ "Suc k"]) (simp add: add.assoc)
  qed
qed

lemma fold_min_Min:
  "fold (\<lambda>j h. min (ps ! j) h) inc (ps ! i) = Min ((!) ps ` set (i # inc))"
proof -
  have "fold (\<lambda>j h. min (ps ! j) h) inc a = fold min (map ((!) ps) inc) a" for a
    by (induction inc arbitrary: a) simp_all
  then show ?thesis
    using Min.set_eq_fold[of "ps ! i" "map ((!) ps) inc"] by simp
qed

lemma set_by_descending_mass: "set (by_descending_mass ps) = {..<length ps}"
  by (auto simp: by_descending_mass_def)

lemma distinct_by_descending_mass: "distinct (by_descending_mass ps)"
  by (simp add: by_descending_mass_def)

lemma length_by_descending_mass: "length (by_descending_mass ps) = length ps"
  by (simp add: by_descending_mass_def)

lemma by_descending_mass_nonempty: "ps \<noteq> [] \<Longrightarrow> by_descending_mass ps \<noteq> []"
  using length_by_descending_mass[of ps] by (cases "by_descending_mass ps") auto

lemma sum_list_mset_cong:
  assumes "mset xs = mset ys"
  shows "sum_list (map f xs) = sum_list (map (f :: nat \<Rightarrow> real) ys)"
proof -
  have "sum_list (map f xs) = sum_mset (image_mset f (mset xs))"
    by (metis mset_map sum_mset_sum_list)
  also have "\<dots> = sum_mset (image_mset f (mset ys))"
    by (simp only: assms)
  also have "\<dots> = sum_list (map f ys)"
    by (metis mset_map sum_mset_sum_list)
  finally show ?thesis .
qed

lemma sum_by_descending_mass: "sum_list (map ((!) ps) (by_descending_mass ps)) = sum_list ps"
proof -
  have "mset (by_descending_mass ps) = mset [0 ..< length ps]"
    by (simp add: by_descending_mass_def)
  then have "sum_list (map ((!) ps) (by_descending_mass ps)) = sum_list (map ((!) ps) [0 ..< length ps])"
    by (rule sum_list_mset_cong)
  then show ?thesis by (simp add: map_nth)
qed

lemma sum_list_sort: "sum_list (map f (sort xs)) = sum_list (map (f :: nat \<Rightarrow> real) xs)"
  by (rule sum_list_mset_cong) simp

lemma waterline:
  assumes "k \<le> length (by_descending_mass ps)"
    and "a \<in> set (take k (by_descending_mass ps))"
    and "b \<in> set (drop k (by_descending_mass ps))"
  shows "ps ! b \<le> ps ! a"
proof -
  let ?xs = "by_descending_mass ps"
  have "sorted (map (\<lambda>i. - (ps ! i)) ?xs)"
    by (simp add: by_descending_mass_def)
  then have "sorted (map (\<lambda>i. - (ps ! i)) (take k ?xs) @ map (\<lambda>i. - (ps ! i)) (drop k ?xs))"
    by (simp flip: map_append)
  with assms(2,3) have "- (ps ! a) \<le> - (ps ! b)"
    by (auto simp: sorted_append)
  then show ?thesis by simp
qed

lemma accumulate_prefix:
  assumes "sum_list ps = 1" and "0 < cred"
  shows "\<exists>k i inc. k \<le> length (by_descending_mass ps) \<and> take k (by_descending_mass ps) = i # inc
      \<and> accumulate ps cred (by_descending_mass ps) [] 0 = (i # inc, sum_list (map ((!) ps) (i # inc)))
      \<and> (cred \<le> sum_list (map ((!) ps) (i # inc)) \<or> k = length (by_descending_mass ps))"
proof -
  let ?xs = "by_descending_mass ps"
  from assms(1) have ne: "ps \<noteq> []" by auto
  then have xs_ne: "?xs \<noteq> []" by (rule by_descending_mass_nonempty)
  from accumulate_take[of ?xs ps cred "[]" 0] obtain k where
    k: "k \<le> length ?xs"
    and acc: "accumulate ps cred ?xs [] 0 = (take k ?xs, sum_list (map ((!) ps) (take k ?xs)))"
    and stop: "cred \<le> sum_list (map ((!) ps) (take k ?xs)) \<or> k = length ?xs"
    and pos: "cred \<le> 0 \<or> ?xs = [] \<or> 0 < k"
    by auto
  from pos assms(2) xs_ne have kpos: "0 < k" by simp
  with xs_ne obtain i inc where inc: "take k ?xs = i # inc"
    by (cases "take k ?xs") auto
  show ?thesis
    using k acc stop inc by (intro exI[of _ k] exI[of _ i] exI[of _ inc]) simp
qed

text \<open>
  C7. For a posterior that sums to 1 and a credible mass in \<open>(0, 1)\<close>, the highest
  density interval exists, its achieved mass is at least the credible mass and is the
  sum of the posterior over the included indices, and its height is the minimum
  posterior mass among the included indices. The included indices are distinct grid
  indices in grid order, and the height is a waterline: no excluded index has a
  posterior mass above it.
\<close>

theorem HDIofGrid_reaches_credible_mass:
  assumes "sum_list ps = 1" and "0 < cred" and "cred < 1"
  shows "\<exists>h. HDIofGrid ps cred = Some h
           \<and> cred \<le> mass h
           \<and> mass h = sum_list (map ((!) ps) (indices h))
           \<and> height h = Min ((!) ps ` set (indices h))
           \<and> indices h \<noteq> [] \<and> sorted (indices h) \<and> distinct (indices h)
           \<and> set (indices h) \<subseteq> {..<length ps}
           \<and> list_all (\<lambda>j. j \<in> set (indices h) \<or> ps ! j \<le> height h) [0 ..< length ps]"
proof -
  let ?xs = "by_descending_mass ps"
  from accumulate_prefix[OF assms(1,2)] obtain k i inc where
    k: "k \<le> length ?xs"
    and inc: "take k ?xs = i # inc"
    and acc: "accumulate ps cred ?xs [] 0 = (i # inc, sum_list (map ((!) ps) (i # inc)))"
    and stop: "cred \<le> sum_list (map ((!) ps) (i # inc)) \<or> k = length ?xs"
    by blast
  define h where "h = \<lparr> indices = sort (i # inc), mass = sum_list (map ((!) ps) (i # inc)),
                        height = fold (\<lambda>j h. min (ps ! j) h) inc (ps ! i) \<rparr>"
  have ind: "indices h = sort (i # inc)"
    and ms: "mass h = sum_list (map ((!) ps) (i # inc))"
    and ht: "height h = fold (\<lambda>j h. min (ps ! j) h) inc (ps ! i)"
    by (simp_all add: h_def)
  have res: "HDIofGrid ps cred = Some h"
    unfolding HDIofGrid_def acc h_def by simp
  have set_h: "set (indices h) = set (i # inc)"
    unfolding ind by (rule set_sort)
  have reach: "cred \<le> mass h"
    using stop
  proof
    assume "cred \<le> sum_list (map ((!) ps) (i # inc))"
    then show ?thesis by (simp only: ms)
  next
    assume "k = length ?xs"
    with inc have "i # inc = ?xs" by simp
    then have "mass h = sum_list ps"
      by (simp only: ms sum_by_descending_mass)
    with assms show ?thesis by simp
  qed
  have msum: "mass h = sum_list (map ((!) ps) (indices h))"
    by (simp only: ms ind sum_list_sort)
  have hmin: "height h = Min ((!) ps ` set (indices h))"
    by (simp only: ht set_h fold_min_Min)
  have "set (i # inc) \<subseteq> set ?xs"
    using set_take_subset[of k ?xs] by (simp only: inc)
  then have sub: "set (indices h) \<subseteq> {..<length ps}"
    by (simp only: set_h set_by_descending_mass)
  have "distinct (i # inc)"
    using distinct_take[OF distinct_by_descending_mass[of ps], of k] by (simp only: inc)
  then have dist: "distinct (indices h)"
    by (simp only: ind distinct_sort)
  have srt: "sorted (indices h)"
    by (simp only: ind sorted_sort)
  have nonempty: "indices h \<noteq> []"
    using set_h by auto
  have water: "j \<in> set (indices h) \<or> ps ! j \<le> height h" if "j < length ps" for j
  proof (cases "j \<in> set (i # inc)")
    case True
    then show ?thesis by (simp only: set_h simp_thms)
  next
    case False
    from that have "j \<in> set ?xs" by (simp add: set_by_descending_mass)
    then have "j \<in> set (take k ?xs) \<union> set (drop k ?xs)"
      by (simp only: set_append[symmetric] append_take_drop_id)
    with False have jd: "j \<in> set (drop k ?xs)" by (simp only: inc) blast
    have "ps ! j \<le> ps ! a" if "a \<in> set (i # inc)" for a
      using waterline[OF k _ jd, of a] that by (simp only: inc)
    then have "ps ! j \<le> Min ((!) ps ` set (i # inc))"
      by simp
    then show ?thesis by (simp only: hmin set_h simp_thms)
  qed
  have "list_all (\<lambda>j. j \<in> set (indices h) \<or> ps ! j \<le> height h) [0 ..< length ps]"
    using water by (simp add: list_all_iff)
  with res reach msum hmin sub dist srt nonempty show ?thesis
    by blast
qed

lemma HDIofGrid_example:
  "HDIofGrid [1/10, 6/10, 3/10] (8/10) = Some \<lparr> indices = [1, 2], mass = 9/10, height = 3/10 \<rparr>"
  by (simp add: HDIofGrid_def by_descending_mass_def upt_rec)

text \<open>The hypotheses of C7 on the posterior \<open>[0.1, 0.6, 0.3]\<close> at credible mass \<open>0.8\<close>.\<close>

theorem HDIofGrid_reaches_credible_mass_witness:
  "sum_list [1/10, 6/10, 3/10 :: real] = 1 \<and> (0::real) < 8/10 \<and> (8/10 :: real) < 1
   \<and> (\<exists>h. HDIofGrid [1/10, 6/10, 3/10] (8/10) = Some h
         \<and> h = \<lparr> indices = [1, 2], mass = 9/10, height = 3/10 \<rparr>
         \<and> 8/10 \<le> mass h
         \<and> mass h = sum_list (map ((!) [1/10, 6/10, 3/10]) (indices h))
         \<and> height h = Min ((!) [1/10, 6/10, 3/10] ` set (indices h)))"
proof -
  have a: "sum_list [1/10, 6/10, 3/10 :: real] = 1" "(0::real) < 8/10" "(8/10 :: real) < 1"
    by simp_all
  from HDIofGrid_reaches_credible_mass[OF a] obtain h where
    h: "HDIofGrid [1/10, 6/10, 3/10] (8/10) = Some h" "8/10 \<le> mass h"
       "mass h = sum_list (map ((!) [1/10, 6/10, 3/10]) (indices h))"
       "height h = Min ((!) [1/10, 6/10, 3/10] ` set (indices h))"
    by blast
  from h(1) have "h = \<lparr> indices = [1, 2], mass = 9/10, height = 3/10 \<rparr>"
    by (simp only: HDIofGrid_example option.inject)
  with a h show ?thesis by blast
qed

end
